theory Spec2Isabelle
  imports Main "HOL-Library.AList"
begin

section \<open>Form analytics: the session record, its reducer and the export controller\<close>

text \<open>
  The development embeds \<^verbatim>\<open>utils/analyticsUtils\<close> (the initial state and
  \<^verbatim>\<open>analyticsReducer\<close>) and the export logic of \<^verbatim>\<open>AnalyticsProvider\<close>.

  Modelling decisions:
  \<^item> A JavaScript object used as a string-keyed dictionary (\<^verbatim>\<open>Record<string, T>\<close>) is an
    association list in insertion order. Reading \<^verbatim>\<open>o[k]\<close> is \<open>map_of o k\<close> (\<open>None\<close> is
    \<^verbatim>\<open>undefined\<close>), writing \<^verbatim>\<open>o[k] = v\<close> is \<open>AList.update k v o\<close>: an existing key keeps
    its position, a new key is appended. \<^verbatim>\<open>Object.keys\<close> is \<open>map fst\<close> and
    \<^verbatim>\<open>Object.values\<close> is \<open>map snd\<close>. Keys are taken not to be names inherited from
    \<^verbatim>\<open>Object.prototype\<close>.
  \<^item> A JavaScript number holding a count or a millisecond timestamp is an \<open>int\<close>.
  \<^item> \<^verbatim>\<open>null\<close> in a field of type \<^verbatim>\<open>T | null\<close> is \<open>None\<close>.
  \<^item> Reading a property of \<^verbatim>\<open>undefined\<close> throws a \<^verbatim>\<open>TypeError\<close>; the reducer
    therefore returns \<open>error + FormAnalytics\<close>.
  \<^item> \<^verbatim>\<open>Date.now()\<close> and \<^verbatim>\<open>uuidv4()\<close> read the environment; what they return during
    one call of the reducer is passed in as a record.
\<close>

subsection \<open>Data model\<close>

type_synonym 'v obj = "(string \<times> 'v) list"

record FieldAnalytics =
  id_field :: string
  validationErrors :: "string list"

record TabAnalytics =
  visits :: int
  totalTimeSpent :: int
  lastVisitTime :: "int option"
  lastVisitedAt :: "int option"

datatype ExportReason = Submit | TabClose | Idle

record FormAnalytics =
  sessionId :: string
  formStartTime :: int
  formEndTime :: "int option"
  formCompletionTime :: "int option"
  fields_map :: "FieldAnalytics obj"
  tabs :: "TabAnalytics obj"
  formSubmitted :: bool
  formAbandoned :: bool
  validationErrorCount :: int
  exportReason :: "ExportReason option"

datatype AnalyticsAction =
    VALIDATION_ERROR string string
  | TAB_CHANGE string
  | FORM_SUBMIT
  | FORM_ABANDON
  | RESET_ANALYTICS
  | FINALIZE_TAB_TIMES
  | SET_EXPORT_REASON "ExportReason option"

datatype error = TypeError

text \<open>
  The environment of one reducer call: \<open>date_now\<close> is the value of \<^verbatim>\<open>Date.now()\<close> read at the
  top of \<^verbatim>\<open>analyticsReducer\<close>; \<open>uuid_v4\<close> and \<open>date_now_init\<close> are what \<^verbatim>\<open>uuidv4()\<close> and
  \<^verbatim>\<open>Date.now()\<close> return inside \<^verbatim>\<open>createInitialAnalyticsState\<close> when the action calls it.
\<close>

record env =
  date_now :: int
  uuid_v4 :: string
  date_now_init :: int

subsection \<open>Initial state\<close>

definition createInitialFieldAnalytics :: "string \<Rightarrow> FieldAnalytics" where
  "createInitialFieldAnalytics fieldId = \<lparr>id_field = fieldId, validationErrors = []\<rparr>"

definition createInitialTabAnalytics :: TabAnalytics where
  "createInitialTabAnalytics =
     \<lparr>visits = 0, totalTimeSpent = 0, lastVisitTime = None, lastVisitedAt = None\<rparr>"

text \<open>
  \<^verbatim>\<open>formFields.forEach((field) => { fieldsAnalytics[field] = ... })\<close> and the same loop over
  \<^verbatim>\<open>tabIds\<close>; the optional chaining \<^verbatim>\<open>tabIds?.forEach\<close> skips the loop when no list is given.
\<close>

definition initFields :: "string list \<Rightarrow> FieldAnalytics obj" where
  "initFields formFields =
     foldl (\<lambda>fieldsAnalytics field.
              AList.update field (createInitialFieldAnalytics field) fieldsAnalytics)
       [] formFields"

definition initTabs :: "string list option \<Rightarrow> TabAnalytics obj" where
  "initTabs tabIds =
     (case tabIds of
        None \<Rightarrow> []
      | Some ids \<Rightarrow>
          foldl (\<lambda>tabsAnalytics tabId.
                   AList.update tabId createInitialTabAnalytics tabsAnalytics)
            [] ids)"

definition createInitialAnalyticsState ::
  "string \<Rightarrow> int \<Rightarrow> string list \<Rightarrow> string list option \<Rightarrow> FormAnalytics" where
  "createInitialAnalyticsState uuid now formFields tabIds =
     \<lparr>sessionId = uuid,
      formStartTime = now,
      formEndTime = None,
      formCompletionTime = None,
      fields_map = initFields formFields,
      tabs = initTabs tabIds,
      formSubmitted = False,
      formAbandoned = False,
      validationErrorCount = 0,
      exportReason = None\<rparr>"

subsection \<open>The reducer\<close>

text \<open>
  The body shared by the four loops over \<^verbatim>\<open>Object.keys(updatedTabs)\<close>: a tab whose
  \<^verbatim>\<open>lastVisitTime\<close> is not null gets \<^verbatim>\<open>now - lastVisitTime\<close> added to \<^verbatim>\<open>totalTimeSpent\<close>
  and its \<^verbatim>\<open>lastVisitTime\<close> set to null. Each loop visits every key once and writes only
  the entry of the key it visits, so it is a \<open>map\<close> over the entries.
\<close>

definition closeTab :: "int \<Rightarrow> TabAnalytics \<Rightarrow> TabAnalytics" where
  "closeTab now t =
     (case lastVisitTime t of
        None \<Rightarrow> t
      | Some since \<Rightarrow>
          t\<lparr>totalTimeSpent := totalTimeSpent t + (now - since), lastVisitTime := None\<rparr>)"

definition finalizeAll :: "int \<Rightarrow> TabAnalytics obj \<Rightarrow> TabAnalytics obj" where
  "finalizeAll now ts = map (\<lambda>(tab, t). (tab, closeTab now t)) ts"

text \<open>The loop of \<^verbatim>\<open>TAB_CHANGE\<close> has the extra guard \<^verbatim>\<open>tab !== action.tab\<close>.\<close>

definition finalizeOthers :: "int \<Rightarrow> string \<Rightarrow> TabAnalytics obj \<Rightarrow> TabAnalytics obj" where
  "finalizeOthers now target ts =
     map (\<lambda>(tab, t). if tab \<noteq> target then (tab, closeTab now t) else (tab, t)) ts"

text \<open>
  \<^verbatim>\<open>Object.values(state.fields).reduce((count, field) => count +
  field.validationErrors.length, 0)\<close>
\<close>

definition totalErrorCount :: "FieldAnalytics obj \<Rightarrow> int" where
  "totalErrorCount fs =
     foldl (\<lambda>count field. count + int (length (validationErrors field))) 0 (map snd fs)"

fun analyticsReducer :: "env \<Rightarrow> FormAnalytics \<Rightarrow> AnalyticsAction \<Rightarrow> error + FormAnalytics" where
  "analyticsReducer e state (VALIDATION_ERROR field err) =
     (case map_of (fields_map state) field of
        None \<Rightarrow> Inl TypeError
      | Some fa \<Rightarrow>
          (let isExistingError = (err \<in> set (validationErrors fa))
           in Inr (state\<lparr>
                fields_map :=
                  AList.update field
                    (fa\<lparr>validationErrors :=
                          (if isExistingError then validationErrors fa
                           else validationErrors fa @ [err])\<rparr>)
                    (fields_map state),
                validationErrorCount :=
                  (if isExistingError then validationErrorCount state
                   else validationErrorCount state + 1)\<rparr>)))"
| "analyticsReducer e state (TAB_CHANGE tab) =
     (let now = date_now e;
          closed = finalizeOthers now tab (tabs state);
          ensured = (if map_of closed tab = None
                     then AList.update tab createInitialTabAnalytics closed
                     else closed)
      in case map_of ensured tab of
           None \<Rightarrow> Inl TypeError
         | Some cur \<Rightarrow>
             Inr (state\<lparr>tabs :=
                    AList.update tab
                      (cur\<lparr>visits := visits cur + 1,
                           lastVisitTime := Some now,
                           lastVisitedAt := Some now\<rparr>)
                      ensured\<rparr>))"
| "analyticsReducer e state FINALIZE_TAB_TIMES =
     Inr (state\<lparr>tabs := finalizeAll (date_now e) (tabs state)\<rparr>)"
| "analyticsReducer e state FORM_SUBMIT =
     (let now = date_now e
      in Inr (state\<lparr>
           validationErrorCount := totalErrorCount (fields_map state),
           formEndTime := Some now,
           formCompletionTime := Some (now - formStartTime state),
           formSubmitted := True,
           formAbandoned := False,
           exportReason := Some Submit,
           tabs := finalizeAll now (tabs state)\<rparr>))"
| "analyticsReducer e state FORM_ABANDON =
     (let now = date_now e
      in Inr (state\<lparr>
           formEndTime := Some now,
           formAbandoned := True,
           tabs := finalizeAll now (tabs state)\<rparr>))"
| "analyticsReducer e state (SET_EXPORT_REASON reason) =
     Inr (state\<lparr>exportReason := reason\<rparr>)"
| "analyticsReducer e state RESET_ANALYTICS =
     Inr (createInitialAnalyticsState (uuid_v4 e) (date_now_init e)
            (map fst (fields_map state)) (Some (map fst (tabs state))))"

text \<open>
  In \<^verbatim>\<open>TAB_CHANGE\<close>, \<open>closed\<close> is \<^verbatim>\<open>updatedTabs\<close> after the guarded loop, \<open>ensured\<close> is
  \<^verbatim>\<open>updatedTabs\<close> after \<^verbatim>\<open>if (!updatedTabs[action.tab])\<close>, and the final write spreads
  \<^verbatim>\<open>updatedTabs[action.tab]\<close>.

  A run of the reducer over a list of dispatched actions, each with the environment of its
  call; an exception ends the run.
\<close>

fun dispatchAll :: "FormAnalytics \<Rightarrow> (env \<times> AnalyticsAction) list \<Rightarrow> error + FormAnalytics" where
  "dispatchAll state [] = Inr state"
| "dispatchAll state ((e, a) # rest) =
     (case analyticsReducer e state a of
        Inl err \<Rightarrow> Inl err
      | Inr state' \<Rightarrow> dispatchAll state' rest)"

definition at :: "int \<Rightarrow> env" where
  "at t = \<lparr>date_now = t, uuid_v4 = ''next-session'', date_now_init = t\<rparr>"

text \<open>
  The identifiers of the tabs whose \<^verbatim>\<open>lastVisitTime\<close> is not null, in key order, and the
  number of distinct messages recorded over all fields.
\<close>

fun activeKeys :: "TabAnalytics obj \<Rightarrow> string list" where
  "activeKeys [] = []"
| "activeKeys ((tab, t) # ts) =
     (if lastVisitTime t \<noteq> None then tab # activeKeys ts else activeKeys ts)"

definition activeTabs :: "FormAnalytics \<Rightarrow> string list" where
  "activeTabs state = activeKeys (tabs state)"

text \<open>Every \<^verbatim>\<open>validationErrors\<close> array is free of duplicates.\<close>

definition errorsDistinct :: "FieldAnalytics obj \<Rightarrow> bool" where
  "errorsDistinct fs = list_all (\<lambda>(field, fa). distinct (validationErrors fa)) fs"

definition distinctErrorTotal :: "FieldAnalytics obj \<Rightarrow> int" where
  "distinctErrorTotal fs = (\<Sum>(field, fa)\<leftarrow>fs. int (card (set (validationErrors fa))))"

subsection \<open>The provider: start-up, export and page unload\<close>

text \<open>
  \<^verbatim>\<open>normalizedTabs\<close> replaces an absent or empty \<^verbatim>\<open>tabs\<close> prop by \<^verbatim>\<open>["default"]\<close>; the mount
  effect dispatches \<^verbatim>\<open>TAB_CHANGE "default"\<close> under the same condition and dispatches nothing
  otherwise.
\<close>

definition normalizedTabs :: "string list option \<Rightarrow> string list" where
  "normalizedTabs tabsProp =
     (case tabsProp of
        None \<Rightarrow> [''default'']
      | Some ts \<Rightarrow> if ts = [] then [''default''] else ts)"

definition mountActions :: "string list option \<Rightarrow> AnalyticsAction list" where
  "mountActions tabsProp =
     (case tabsProp of
        None \<Rightarrow> [TAB_CHANGE ''default'']
      | Some ts \<Rightarrow> if ts = [] then [TAB_CHANGE ''default''] else [])"

text \<open>
  The state the provider owns: the reducer state of the latest render (\<open>analytics\<close>), the
  reducer state of the first render (\<open>firstRender\<close>), the ref \<^verbatim>\<open>formAlreadySubmitted\<close>, and,
  as a log of its effects on the outside, the bodies the ingestion endpoint received (by
  \<^verbatim>\<open>axios.post\<close> that resolved, or handed to \<^verbatim>\<open>navigator.sendBeacon\<close>) and the bodies
  offered as a file download.

  The first render is kept because \<^verbatim>\<open>resetIdleTimer\<close> is memoised with an empty dependency
  list: the timer it arms always calls the \<^verbatim>\<open>exportAnalytics\<close> of the first render, whose
  \<^verbatim>\<open>analytics\<close> is the initial state. Consumers of the context and the unload listener
  (registered again after every change of \<^verbatim>\<open>analytics\<close>) hold the latest render.
\<close>

datatype Channel = Post | Beacon

record Controller =
  analytics :: FormAnalytics
  firstRender :: FormAnalytics
  formAlreadySubmitted :: bool
  delivered :: "(Channel \<times> FormAnalytics) list"
  downloads :: "FormAnalytics list"

definition initialController ::
  "string \<Rightarrow> int \<Rightarrow> string list \<Rightarrow> string list option \<Rightarrow> Controller" where
  "initialController uuid now formFields tabsProp =
     \<lparr>analytics = createInitialAnalyticsState uuid now formFields (Some (normalizedTabs tabsProp)),
      firstRender = createInitialAnalyticsState uuid now formFields (Some (normalizedTabs tabsProp)),
      formAlreadySubmitted = False,
      delivered = [],
      downloads = []\<rparr>"

text \<open>
  \<^verbatim>\<open>cleanTabs\<close> of \<^verbatim>\<open>exportAnalytics\<close>: the entries are rebuilt with three properties; the
  rebuilt entry has no \<^verbatim>\<open>lastVisitedAt\<close>, which is \<open>None\<close> here.
\<close>

definition cleanTabs :: "int \<Rightarrow> TabAnalytics obj \<Rightarrow> TabAnalytics obj" where
  "cleanTabs now ts =
     map (\<lambda>(tab, currentTab).
            (tab, \<lparr>visits = visits currentTab,
                   totalTimeSpent =
                     (case lastVisitTime currentTab of
                        None \<Rightarrow> totalTimeSpent currentTab
                      | Some since \<Rightarrow> totalTimeSpent currentTab + (now - since)),
                   lastVisitTime = lastVisitTime currentTab,
                   lastVisitedAt = None\<rparr>)) ts"

definition completeAnalytics :: "int \<Rightarrow> ExportReason \<Rightarrow> FormAnalytics \<Rightarrow> FormAnalytics" where
  "completeAnalytics now reason a =
     a\<lparr>tabs := cleanTabs now (tabs a),
       formEndTime := Some now,
       formCompletionTime := Some (now - formStartTime a),
       formSubmitted := (if reason = Submit then True else formSubmitted a),
       formAbandoned := (if reason = TabClose \<or> reason = Idle then True else formAbandoned a),
       exportReason := Some reason\<rparr>"

text \<open>
  The first statement of the effect that depends on \<^verbatim>\<open>[analytics]\<close>: it runs again after
  every render in which the reducer state has changed and clears the ref when
  \<^verbatim>\<open>analytics.sessionId\<close> is a non-empty string.
\<close>

definition analyticsEffect :: "Controller \<Rightarrow> Controller" where
  "analyticsEffect c =
     (if sessionId (analytics c) \<noteq> [] then c\<lparr>formAlreadySubmitted := False\<rparr> else c)"

text \<open>
  The actions \<^verbatim>\<open>exportAnalytics\<close> dispatches after a resolved post.
\<close>

definition exportDispatches ::
  "ExportReason \<Rightarrow> env \<Rightarrow> env \<Rightarrow> env \<Rightarrow> (env \<times> AnalyticsAction) list" where
  "exportDispatches reason e1 e2 e3 =
     (if reason = Submit then [(e1, FORM_SUBMIT)]
      else if reason = TabClose \<or> reason = Idle then [(e1, FORM_ABANDON)]
      else [])
     @ [(e2, SET_EXPORT_REASON (Some reason)), (e3, FINALIZE_TAB_TIMES)]"

text \<open>
  One call of \<^verbatim>\<open>exportAnalytics(reason)\<close> together with the render its dispatches cause.
  \<open>seen\<close> is the \<^verbatim>\<open>analytics\<close> of the closure that runs, from which the body is built; \<open>now\<close> is
  its \<^verbatim>\<open>Date.now()\<close>; \<open>postOk\<close> says whether \<^verbatim>\<open>axios.post\<close> resolved; \<open>e1\<close>, \<open>e2\<close>, \<open>e3\<close> are
  the environments of the three reducer calls.

  After a resolved post the function dispatches (the reducer runs on the live state, not on
  \<open>seen\<close>) and, for reason \<^verbatim>\<open>"submit"\<close>, sets the ref. The dispatches replace the reducer state,
  so the provider renders again and the effect above runs: this is the \<open>analyticsEffect\<close>
  around the update. A rejected post goes to the download fallback; nothing is dispatched and
  nothing renders. The function never reads the ref. No other handler is taken to run between
  the call and that render.
\<close>

definition exportAnalytics ::
  "FormAnalytics \<Rightarrow> Controller \<Rightarrow> ExportReason \<Rightarrow> int \<Rightarrow> bool \<Rightarrow> env \<Rightarrow> env \<Rightarrow> env
     \<Rightarrow> Controller" where
  "exportAnalytics seen c reason now postOk e1 e2 e3 =
     (let payload = completeAnalytics now reason seen
      in if postOk then
           analyticsEffect
             (c\<lparr>analytics :=
                  (case dispatchAll (analytics c) (exportDispatches reason e1 e2 e3) of
                     Inr a' \<Rightarrow> a'
                   | Inl err \<Rightarrow> analytics c),
                formAlreadySubmitted :=
                  (if reason = Submit then True else formAlreadySubmitted c),
                delivered := delivered c @ [(Post, payload)]\<rparr>)
         else c\<lparr>downloads := downloads c @ [payload]\<rparr>)"

text \<open>
  The two triggers inside the provider. \<^verbatim>\<open>trackFormSubmit\<close> awaits
  \<^verbatim>\<open>exportAnalytics("submit")\<close> of the latest render (the navigation that follows is not
  modelled). The idle timer calls \<^verbatim>\<open>exportAnalytics("idle")\<close> of the first render.
\<close>

definition trackFormSubmit ::
  "Controller \<Rightarrow> int \<Rightarrow> bool \<Rightarrow> env \<Rightarrow> env \<Rightarrow> env \<Rightarrow> Controller" where
  "trackFormSubmit c now postOk e1 e2 e3 =
     exportAnalytics (analytics c) c Submit now postOk e1 e2 e3"

definition idleTimeout ::
  "Controller \<Rightarrow> int \<Rightarrow> bool \<Rightarrow> env \<Rightarrow> env \<Rightarrow> env \<Rightarrow> Controller" where
  "idleTimeout c now postOk e1 e2 e3 =
     exportAnalytics (firstRender c) c Idle now postOk e1 e2 e3"

text \<open>
  \<^verbatim>\<open>handleUnload\<close>: the beacon is sent only while \<^verbatim>\<open>formAlreadySubmitted\<close> is false.
\<close>

definition handleUnload :: "Controller \<Rightarrow> Controller" where
  "handleUnload c =
     (if \<not> formAlreadySubmitted c
      then c\<lparr>delivered :=
               delivered c @
                 [(Beacon, (analytics c)\<lparr>formAbandoned := True, exportReason := Some TabClose\<rparr>)]\<rparr>
      else c)"

text \<open>What the endpoint saw: channel, session and reason of every delivered body.\<close>

definition deliveredLog :: "Controller \<Rightarrow> (Channel \<times> string \<times> ExportReason option) list" where
  "deliveredLog c = map (\<lambda>(ch, body). (ch, sessionId body, exportReason body)) (delivered c)"

section \<open>Properties\<close>

subsection \<open>Lookups after the tab loops\<close>

lemma map_of_finalizeOthers:
  "map_of (finalizeOthers now target ts) k =
     (if k = target then map_of ts k else map_option (closeTab now) (map_of ts k))"
  by (induction ts) (auto simp: finalizeOthers_def)

lemma map_of_finalizeAll:
  "map_of (finalizeAll now ts) k = map_option (closeTab now) (map_of ts k)"
  by (induction ts) (auto simp: finalizeAll_def)

subsection \<open>Scenario A\<close>

text \<open>
  C8. A session is created at time 0 with the sections personal, payment and experience
  (any session id, any field list). Dispatching \<open>TAB_CHANGE personal\<close> at 0,
  \<open>TAB_CHANGE payment\<close> at 5000, \<open>TAB_CHANGE experience\<close> at 12000 and \<open>FORM_SUBMIT\<close> at 20000
  returns a state whose \<open>totalTimeSpent\<close> is 5000 for personal, 7000 for payment and 8000 for
  experience, with \<open>formSubmitted\<close> true and \<open>formCompletionTime\<close> 20000.
\<close>

theorem scenario_A:
  "\<exists>s. dispatchAll
          (createInitialAnalyticsState u 0 ffs (Some [''personal'', ''payment'', ''experience'']))
          [(e0\<lparr>date_now := 0\<rparr>, TAB_CHANGE ''personal''),
           (e1\<lparr>date_now := 5000\<rparr>, TAB_CHANGE ''payment''),
           (e2\<lparr>date_now := 12000\<rparr>, TAB_CHANGE ''experience''),
           (e3\<lparr>date_now := 20000\<rparr>, FORM_SUBMIT)] = Inr s
       \<and> map_option totalTimeSpent (map_of (tabs s) ''personal'') = Some 5000
       \<and> map_option totalTimeSpent (map_of (tabs s) ''payment'') = Some 7000
       \<and> map_option totalTimeSpent (map_of (tabs s) ''experience'') = Some 8000
       \<and> formSubmitted s
       \<and> formCompletionTime s = Some 20000"
  by (simp add: createInitialAnalyticsState_def initTabs_def createInitialTabAnalytics_def
        finalizeOthers_def finalizeAll_def closeTab_def)

subsection \<open>Validation errors\<close>

text \<open>
  C2. The reducer is not total on \<open>VALIDATION_ERROR\<close>: for a field that is not a key of
  \<open>fields\<close>, \<^verbatim>\<open>state.fields[action.field]\<close> is undefined and reading its \<^verbatim>\<open>validationErrors\<close>
  throws. The session below was created from a schema with the top-level keys name and
  address; a tracked field may be named by a nested path such as address.street, which is
  not one of them.
\<close>

theorem validation_error_unknown_field_throws:
  "analyticsReducer (at 60000)
     (createInitialAnalyticsState ''s-1'' 0 [''name'', ''address''] (Some [''personal'']))
     (VALIDATION_ERROR ''address.street'' ''Required'') = Inl TypeError"
  by (simp add: createInitialAnalyticsState_def initFields_def)

text \<open>
  C6, as stated, at a state that already holds the message: the field email has recorded
  ``Invalid email address'' and the count is 1. Two more dispatches of the same error leave
  the count at 1; the claim asks for an increment of exactly 1, that is 2.
\<close>

theorem validation_error_twice_counterexample:
  "dispatchAll
     \<lparr>sessionId = ''s-1'', formStartTime = 0, formEndTime = None, formCompletionTime = None,
      fields_map = [(''email'', \<lparr>id_field = ''email'',
                                 validationErrors = [''Invalid email address'']\<rparr>)],
      tabs = [],
      formSubmitted = False, formAbandoned = False,
      validationErrorCount = 1, exportReason = None\<rparr>
     [(at 60000, VALIDATION_ERROR ''email'' ''Invalid email address''),
      (at 120000, VALIDATION_ERROR ''email'' ''Invalid email address'')]
   = Inr \<lparr>sessionId = ''s-1'', formStartTime = 0, formEndTime = None,
          formCompletionTime = None,
          fields_map = [(''email'', \<lparr>id_field = ''email'',
                                     validationErrors = [''Invalid email address'']\<rparr>)],
          tabs = [],
          formSubmitted = False, formAbandoned = False,
          validationErrorCount = 1, exportReason = None\<rparr>"
  by simp

text \<open>
  C6, amended. For a field present in \<open>fields\<close>, dispatching the same \<open>VALIDATION_ERROR\<close>
  twice gives the state that one dispatch gives (the second dispatch is the identity), and
  over the two dispatches \<open>validationErrorCount\<close> grows by 1 when the message was not yet
  recorded for the field and by 0 when it was.
\<close>

theorem validation_error_dedup:
  assumes "map_of (fields_map s) field = Some fa"
  shows "\<exists>s1. analyticsReducer e1 s (VALIDATION_ERROR field msg) = Inr s1
           \<and> analyticsReducer e2 s1 (VALIDATION_ERROR field msg) = Inr s1
           \<and> validationErrorCount s1 =
               validationErrorCount s + (if msg \<in> set (validationErrors fa) then 0 else 1)"
  using assms by (simp add: AList.update_conv' Let_def)

theorem validation_error_dedup_witness:
  "\<exists>s1. analyticsReducer (at 60000)
            (createInitialAnalyticsState ''s-1'' 0 [''email''] (Some [''personal'']))
            (VALIDATION_ERROR ''email'' ''Invalid email address'') = Inr s1
        \<and> analyticsReducer (at 120000) s1
            (VALIDATION_ERROR ''email'' ''Invalid email address'') = Inr s1
        \<and> validationErrorCount s1 = 1"
  using validation_error_dedup
    [of "createInitialAnalyticsState ''s-1'' 0 [''email''] (Some [''personal''])"
        "''email''" "createInitialFieldAnalytics ''email''"
        "at 60000" "''Invalid email address''" "at 120000"]
  by (simp add: createInitialAnalyticsState_def initFields_def createInitialFieldAnalytics_def)

subsection \<open>Tab changes\<close>

text \<open>
  C3, as stated, at a state where personal has been active since time 0 with no time
  accumulated: \<open>TAB_CHANGE personal\<close> at time 1000 raises \<open>visits\<close> to 2 and sets
  \<open>lastVisitTime\<close> to 1000, but \<open>totalTimeSpent\<close> stays 0; the claim asks for 1000.
\<close>

theorem tab_reselect_counterexample:
  "analyticsReducer (at 1000)
     \<lparr>sessionId = ''s-1'', formStartTime = 0, formEndTime = None, formCompletionTime = None,
      fields_map = [],
      tabs = [(''personal'', \<lparr>visits = 1, totalTimeSpent = 0, lastVisitTime = Some 0,
                              lastVisitedAt = Some 0\<rparr>)],
      formSubmitted = False, formAbandoned = False,
      validationErrorCount = 0, exportReason = None\<rparr>
     (TAB_CHANGE ''personal'')
   = Inr \<lparr>sessionId = ''s-1'', formStartTime = 0, formEndTime = None,
          formCompletionTime = None,
          fields_map = [],
          tabs = [(''personal'', \<lparr>visits = 2, totalTimeSpent = 0, lastVisitTime = Some 1000,
                                  lastVisitedAt = Some 1000\<rparr>)],
          formSubmitted = False, formAbandoned = False,
          validationErrorCount = 0, exportReason = None\<rparr>"
  by (simp add: finalizeOthers_def at_def)

text \<open>
  C3, amended. When the target of \<open>TAB_CHANGE\<close> is a tab that is active already, its
  \<open>visits\<close> grows by 1 and its \<open>lastVisitTime\<close> (and \<open>lastVisitedAt\<close>) becomes the event
  time, while its \<open>totalTimeSpent\<close> is left as it was: the loop skips the target, so the time
  since the former \<open>lastVisitTime\<close> is not added.
\<close>

theorem tab_reselect_active:
  assumes "map_of (tabs s) tab = Some t" and "lastVisitTime t = Some since"
  shows "\<exists>s'. analyticsReducer e s (TAB_CHANGE tab) = Inr s'
           \<and> map_of (tabs s') tab =
               Some (t\<lparr>visits := visits t + 1,
                       lastVisitTime := Some (date_now e),
                       lastVisitedAt := Some (date_now e)\<rparr>)
           \<and> map_option totalTimeSpent (map_of (tabs s') tab) = Some (totalTimeSpent t)"
  using assms by (simp add: map_of_finalizeOthers AList.update_conv' Let_def)

theorem tab_reselect_active_witness:
  "\<exists>s'. analyticsReducer (at 1000)
            \<lparr>sessionId = ''s-1'', formStartTime = 0, formEndTime = None,
             formCompletionTime = None, fields_map = [],
             tabs = [(''personal'', \<lparr>visits = 1, totalTimeSpent = 250, lastVisitTime = Some 400,
                                     lastVisitedAt = Some 400\<rparr>)],
             formSubmitted = False, formAbandoned = False,
             validationErrorCount = 0, exportReason = None\<rparr>
            (TAB_CHANGE ''personal'') = Inr s'
        \<and> map_of (tabs s') ''personal'' =
            Some \<lparr>visits = 2, totalTimeSpent = 250, lastVisitTime = Some 1000,
                  lastVisitedAt = Some 1000\<rparr>"
  using tab_reselect_active
    [of "\<lparr>sessionId = ''s-1'', formStartTime = 0, formEndTime = None,
          formCompletionTime = None, fields_map = [],
          tabs = [(''personal'', \<lparr>visits = 1, totalTimeSpent = 250, lastVisitTime = Some 400,
                                  lastVisitedAt = Some 400\<rparr>)],
          formSubmitted = False, formAbandoned = False,
          validationErrorCount = 0, exportReason = None\<rparr>"
        "''personal''"
        "\<lparr>visits = 1, totalTimeSpent = 250, lastVisitTime = Some 400, lastVisitedAt = Some 400\<rparr>"
        400 "at 1000"]
  by (simp add: at_def finalizeOthers_def)

subsection \<open>Terminal markers\<close>

text \<open>
  C4. \<open>FORM_SUBMIT\<close> at time 10 followed by \<open>FORM_ABANDON\<close> at time 20 on a fresh session:
  \<open>FORM_ABANDON\<close> sets \<open>formAbandoned\<close> and keeps \<open>formSubmitted\<close>, so both markers are true
  in the state returned.
\<close>

theorem abandon_after_submit_both_flags:
  "dispatchAll (createInitialAnalyticsState ''s-1'' 0 [''name''] (Some [''personal'']))
     [(at 10, FORM_SUBMIT), (at 20, FORM_ABANDON)]
   = Inr \<lparr>sessionId = ''s-1'', formStartTime = 0, formEndTime = Some 20,
          formCompletionTime = Some 10,
          fields_map = [(''name'', \<lparr>id_field = ''name'', validationErrors = []\<rparr>)],
          tabs = [(''personal'', \<lparr>visits = 0, totalTimeSpent = 0, lastVisitTime = None,
                                  lastVisitedAt = None\<rparr>)],
          formSubmitted = True, formAbandoned = True,
          validationErrorCount = 0, exportReason = Some Submit\<rparr>"
  by (simp add: createInitialAnalyticsState_def initFields_def initTabs_def
        createInitialFieldAnalytics_def createInitialTabAnalytics_def
        finalizeAll_def closeTab_def totalErrorCount_def at_def)

subsection \<open>Runs of the reducer and the objects it builds\<close>

lemma dispatchAll_invariant:
  assumes "P s0"
    and "\<And>e s a s'. P s \<Longrightarrow> analyticsReducer e s a = Inr s' \<Longrightarrow> P s'"
    and "dispatchAll s0 evs = Inr s"
  shows "P s"
  using assms(1,3)
proof (induction evs arbitrary: s0)
  case Nil
  then show ?case by simp
next
  case (Cons ev evs)
  obtain e a where ev: "ev = (e, a)" by (cases ev)
  from Cons.prems(2) ev obtain s1 where
    step: "analyticsReducer e s0 a = Inr s1" and rest: "dispatchAll s1 evs = Inr s"
    by (auto split: sum.splits)
  from assms(2)[OF Cons.prems(1) step] have "P s1" .
  from Cons.IH[OF this rest] show ?case .
qed

lemma set_update_subset: "set (AList.update k v al) \<subseteq> insert (k, v) (set al)"
  by (induction al) auto

lemma map_fst_finalizeOthers [simp]: "map fst (finalizeOthers now target ts) = map fst ts"
  by (induction ts) (auto simp: finalizeOthers_def)

lemma map_fst_finalizeAll [simp]: "map fst (finalizeAll now ts) = map fst ts"
  by (induction ts) (auto simp: finalizeAll_def)

lemma foldl_update_lookup:
  "map_of (foldl (\<lambda>acc k. AList.update k (g k) acc) al ks) x =
     (if x \<in> set ks then Some (g x) else map_of al x)"
  by (induction ks arbitrary: al) (auto simp: AList.update_conv')

lemma foldl_update_keys:
  "fst ` set (foldl (\<lambda>acc k. AList.update k (g k) acc) al ks) = set ks \<union> fst ` set al"
  by (induction ks arbitrary: al) (auto simp: AList.dom_update)

lemma foldl_update_distinct:
  "distinct (map fst al) \<Longrightarrow>
   distinct (map fst (foldl (\<lambda>acc k. AList.update k (g k) acc) al ks))"
  by (induction ks arbitrary: al) (auto simp: AList.distinct_update)

lemma foldl_update_entries:
  "(k, v) \<in> set (foldl (\<lambda>acc k. AList.update k (g k) acc) al ks) \<Longrightarrow>
   (k, v) \<in> set al \<or> v = g k"
proof (induction ks arbitrary: al)
  case Nil
  then show ?case by simp
next
  case (Cons a ks)
  from Cons.IH[of "AList.update a (g a) al"] Cons.prems
  have "(k, v) \<in> set (AList.update a (g a) al) \<or> v = g k" by simp
  then show ?case using set_update_subset[of a "g a" al] by auto
qed

subsection \<open>The error count\<close>

lemma foldl_count: "foldl (\<lambda>count field. count + int (length (validationErrors field))) a xs
   = a + (\<Sum>field\<leftarrow>xs. int (length (validationErrors field)))"
  by (induction xs arbitrary: a) auto

lemma totalErrorCount_sum:
  "totalErrorCount fs = (\<Sum>(field, fa)\<leftarrow>fs. int (length (validationErrors fa)))"
  unfolding totalErrorCount_def foldl_count
  by (induction fs) auto

lemma distinct_total: "errorsDistinct fs \<Longrightarrow> distinctErrorTotal fs = totalErrorCount fs"
  unfolding totalErrorCount_sum
  by (induction fs) (auto simp: errorsDistinct_def distinctErrorTotal_def distinct_card)

lemma distinctErrorTotal_update:
  "map_of fs k = Some fa \<Longrightarrow>
   distinctErrorTotal (AList.update k fa' fs) =
     distinctErrorTotal fs - int (card (set (validationErrors fa)))
       + int (card (set (validationErrors fa')))"
  by (induction fs) (auto simp: distinctErrorTotal_def)

lemma errorsDistinct_update:
  "errorsDistinct fs \<Longrightarrow> distinct (validationErrors fa') \<Longrightarrow>
   errorsDistinct (AList.update k fa' fs)"
  by (induction fs) (auto simp: errorsDistinct_def)

lemma errorsDistinct_lookup:
  "errorsDistinct fs \<Longrightarrow> map_of fs k = Some fa \<Longrightarrow> distinct (validationErrors fa)"
  by (induction fs) (auto simp: errorsDistinct_def split: if_splits)

lemma errorsDistinct_initFields: "errorsDistinct (initFields ffs)"
proof -
  have "\<forall>(k, v) \<in> set (initFields ffs). v = createInitialFieldAnalytics k"
    using foldl_update_entries[of _ _ createInitialFieldAnalytics "[]" ffs]
    by (auto simp: initFields_def)
  then show ?thesis
    by (auto simp: errorsDistinct_def list_all_iff createInitialFieldAnalytics_def)
qed

lemma sum_list_all_zero:
  "(\<And>x. x \<in> set xs \<Longrightarrow> f x = (0::int)) \<Longrightarrow> sum_list (map f xs) = 0"
  by (induction xs) auto

lemma distinctErrorTotal_initFields: "distinctErrorTotal (initFields ffs) = 0"
proof -
  have "\<forall>(k, v) \<in> set (initFields ffs). v = createInitialFieldAnalytics k"
    using foldl_update_entries[of _ _ createInitialFieldAnalytics "[]" ffs]
    by (auto simp: initFields_def)
  then have "\<And>p. p \<in> set (initFields ffs) \<Longrightarrow>
      (case p of (field, fa) \<Rightarrow> int (card (set (validationErrors fa)))) = 0"
    by (auto simp: createInitialFieldAnalytics_def)
  then show ?thesis
    unfolding distinctErrorTotal_def by (rule sum_list_all_zero)
qed

lemma step_errorCount:
  assumes "errorsDistinct (fields_map s)"
    and "validationErrorCount s = distinctErrorTotal (fields_map s)"
    and "analyticsReducer e s a = Inr s'"
  shows "errorsDistinct (fields_map s') \<and> validationErrorCount s' = distinctErrorTotal (fields_map s')"
proof (cases a)
  case (VALIDATION_ERROR field msg)
  with assms(3) obtain fa where fa: "map_of (fields_map s) field = Some fa"
    by (auto split: option.splits)
  have d: "distinct (validationErrors fa)" using errorsDistinct_lookup[OF assms(1) fa] .
  show ?thesis
  proof (cases "msg \<in> set (validationErrors fa)")
    case True
    with assms VALIDATION_ERROR fa d show ?thesis
      by (auto simp: Let_def errorsDistinct_update distinctErrorTotal_update)
  next
    case False
    with assms VALIDATION_ERROR fa d show ?thesis
      by (auto simp: Let_def errorsDistinct_update distinctErrorTotal_update)
  qed
next
  case RESET_ANALYTICS
  with assms show ?thesis
    by (auto simp: createInitialAnalyticsState_def errorsDistinct_initFields distinctErrorTotal_initFields)
next
  case FORM_SUBMIT
  with assms show ?thesis by (auto simp: Let_def distinct_total)
qed (use assms in \<open>auto simp: Let_def split: option.splits\<close>)

text \<open>
  C5. \<open>validationErrorCount\<close> equals the number of distinct messages summed over the fields:
  in the initial state; after every reducer event that returns, from any state where the
  equation holds and no \<open>validationErrors\<close> array repeats a message (the arrays stand for
  sets, and the event keeps them so); hence in every state reached from an initial state.
  \<open>FORM_SUBMIT\<close> re-derives the count from the fields in every state, whatever the counter
  held before: it returns, keeps the fields and sets the count to the sum of the array
  lengths, which is the number of distinct messages when no array repeats one.
\<close>

theorem errorCount_invariant:
  "validationErrorCount (createInitialAnalyticsState u t0 ffs tids) =
     distinctErrorTotal (fields_map (createInitialAnalyticsState u t0 ffs tids))
   \<and> (errorsDistinct (fields_map s)
        \<and> validationErrorCount s = distinctErrorTotal (fields_map s)
        \<and> analyticsReducer e s a = Inr s'
      \<longrightarrow> errorsDistinct (fields_map s')
          \<and> validationErrorCount s' = distinctErrorTotal (fields_map s')
          \<and> (a = FORM_SUBMIT \<longrightarrow> validationErrorCount s' = totalErrorCount (fields_map s)))
   \<and> (dispatchAll (createInitialAnalyticsState u t0 ffs tids) evs = Inr r
      \<longrightarrow> errorsDistinct (fields_map r)
          \<and> validationErrorCount r = distinctErrorTotal (fields_map r))
   \<and> (\<exists>q. analyticsReducer e2 p FORM_SUBMIT = Inr q
          \<and> fields_map q = fields_map p
          \<and> validationErrorCount q = totalErrorCount (fields_map p)
          \<and> (errorsDistinct (fields_map p)
               \<longrightarrow> validationErrorCount q = distinctErrorTotal (fields_map q)))"
proof (intro conjI impI)
  show "\<exists>q. analyticsReducer e2 p FORM_SUBMIT = Inr q
          \<and> fields_map q = fields_map p
          \<and> validationErrorCount q = totalErrorCount (fields_map p)
          \<and> (errorsDistinct (fields_map p)
               \<longrightarrow> validationErrorCount q = distinctErrorTotal (fields_map q))"
    by (simp add: Let_def distinct_total)
next
  let ?init = "createInitialAnalyticsState u t0 ffs tids"
  have init: "errorsDistinct (fields_map ?init)
      \<and> validationErrorCount ?init = distinctErrorTotal (fields_map ?init)"
    by (simp add: createInitialAnalyticsState_def errorsDistinct_initFields
          distinctErrorTotal_initFields)
  then show "validationErrorCount ?init = distinctErrorTotal (fields_map ?init)" by simp
  {
    assume run: "dispatchAll ?init evs = Inr r"
    have inv: "errorsDistinct (fields_map r)
        \<and> validationErrorCount r = distinctErrorTotal (fields_map r)"
      by (rule dispatchAll_invariant
            [where P = "\<lambda>x. errorsDistinct (fields_map x)
                          \<and> validationErrorCount x = distinctErrorTotal (fields_map x)",
             OF init _ run])
         (use step_errorCount in blast)
    from inv show "errorsDistinct (fields_map r)" by simp
    from inv show "validationErrorCount r = distinctErrorTotal (fields_map r)" by simp
  }
  {
    assume h: "errorsDistinct (fields_map s)
        \<and> validationErrorCount s = distinctErrorTotal (fields_map s)
        \<and> analyticsReducer e s a = Inr s'"
    then have step: "errorsDistinct (fields_map s')
        \<and> validationErrorCount s' = distinctErrorTotal (fields_map s')"
      using step_errorCount by blast
    from step show "errorsDistinct (fields_map s')" by simp
    from step show "validationErrorCount s' = distinctErrorTotal (fields_map s')" by simp
    assume "a = FORM_SUBMIT"
    with h show "validationErrorCount s' = totalErrorCount (fields_map s)"
      by (auto simp: Let_def)
  }
qed

theorem errorCount_invariant_witness:
  "errorsDistinct [(''email'', \<lparr>id_field = ''email'', validationErrors = [''Required'']\<rparr>)]
   \<and> analyticsReducer (at 60000)
        \<lparr>sessionId = ''s-1'', formStartTime = 0, formEndTime = None, formCompletionTime = None,
         fields_map = [(''email'', \<lparr>id_field = ''email'', validationErrors = [''Required'']\<rparr>)],
         tabs = [], formSubmitted = False, formAbandoned = False,
         validationErrorCount = 1, exportReason = None\<rparr>
        (VALIDATION_ERROR ''email'' ''Invalid email address'')
      = Inr \<lparr>sessionId = ''s-1'', formStartTime = 0, formEndTime = None,
             formCompletionTime = None,
             fields_map = [(''email'', \<lparr>id_field = ''email'',
                 validationErrors = [''Required'', ''Invalid email address'']\<rparr>)],
             tabs = [], formSubmitted = False, formAbandoned = False,
             validationErrorCount = 2, exportReason = None\<rparr>
   \<and> distinctErrorTotal [(''email'', \<lparr>id_field = ''email'',
          validationErrors = [''Required'', ''Invalid email address'']\<rparr>)] = 2
   \<and> (\<exists>r. dispatchAll (createInitialAnalyticsState ''s-1'' 0 [''email''] (Some [''personal'']))
             [(at 60000, VALIDATION_ERROR ''email'' ''Required''),
              (at 70000, VALIDATION_ERROR ''email'' ''Required''),
              (at 80000, FORM_SUBMIT)] = Inr r
          \<and> validationErrorCount r = 1
          \<and> distinctErrorTotal (fields_map r) = 1)
   \<and> analyticsReducer (at 90000)
        \<lparr>sessionId = ''s-1'', formStartTime = 0, formEndTime = None, formCompletionTime = None,
         fields_map = [(''email'', \<lparr>id_field = ''email'', validationErrors = [''Required'']\<rparr>)],
         tabs = [], formSubmitted = False, formAbandoned = False,
         validationErrorCount = 7, exportReason = None\<rparr>
        FORM_SUBMIT
      = Inr \<lparr>sessionId = ''s-1'', formStartTime = 0, formEndTime = Some 90000,
             formCompletionTime = Some 90000,
             fields_map = [(''email'', \<lparr>id_field = ''email'',
                 validationErrors = [''Required'']\<rparr>)],
             tabs = [], formSubmitted = True, formAbandoned = False,
             validationErrorCount = 1, exportReason = Some Submit\<rparr>"
proof -
  let ?p = "\<lparr>sessionId = ''s-1'', formStartTime = 0, formEndTime = None, formCompletionTime = None,
         fields_map = [(''email'', \<lparr>id_field = ''email'', validationErrors = [''Required'']\<rparr>)],
         tabs = [], formSubmitted = False, formAbandoned = False,
         validationErrorCount = 7, exportReason = None\<rparr>"
  have stale: "analyticsReducer (at 90000) ?p FORM_SUBMIT
      = Inr \<lparr>sessionId = ''s-1'', formStartTime = 0, formEndTime = Some 90000,
             formCompletionTime = Some 90000,
             fields_map = [(''email'', \<lparr>id_field = ''email'',
                 validationErrors = [''Required'']\<rparr>)],
             tabs = [], formSubmitted = True, formAbandoned = False,
             validationErrorCount = 1, exportReason = Some Submit\<rparr>"
    by (simp add: totalErrorCount_def finalizeAll_def at_def)
  let ?s = "\<lparr>sessionId = ''s-1'', formStartTime = 0, formEndTime = None, formCompletionTime = None,
         fields_map = [(''email'', \<lparr>id_field = ''email'', validationErrors = [''Required'']\<rparr>)],
         tabs = [], formSubmitted = False, formAbandoned = False,
         validationErrorCount = 1, exportReason = None\<rparr>"
  let ?s' = "\<lparr>sessionId = ''s-1'', formStartTime = 0, formEndTime = None,
             formCompletionTime = None,
             fields_map = [(''email'', \<lparr>id_field = ''email'',
                 validationErrors = [''Required'', ''Invalid email address'']\<rparr>)],
             tabs = [], formSubmitted = False, formAbandoned = False,
             validationErrorCount = 2, exportReason = None\<rparr>"
  let ?r = "\<lparr>sessionId = ''s-1'', formStartTime = 0, formEndTime = Some 80000,
             formCompletionTime = Some 80000,
             fields_map = [(''email'', \<lparr>id_field = ''email'',
                 validationErrors = [''Required'']\<rparr>)],
             tabs = [(''personal'', \<lparr>visits = 0, totalTimeSpent = 0, lastVisitTime = None,
                                  lastVisitedAt = None\<rparr>)],
             formSubmitted = True, formAbandoned = False,
             validationErrorCount = 1, exportReason = Some Submit\<rparr>"
  have d: "errorsDistinct (fields_map ?s)" by (simp add: errorsDistinct_def)
  have c: "validationErrorCount ?s = distinctErrorTotal (fields_map ?s)"
    by (simp add: distinctErrorTotal_def)
  have st: "analyticsReducer (at 60000) ?s (VALIDATION_ERROR ''email'' ''Invalid email address'')
      = Inr ?s'" by simp
  have run: "dispatchAll (createInitialAnalyticsState ''s-1'' 0 [''email''] (Some [''personal'']))
             [(at 60000, VALIDATION_ERROR ''email'' ''Required''),
              (at 70000, VALIDATION_ERROR ''email'' ''Required''),
              (at 80000, FORM_SUBMIT)] = Inr ?r"
    by (simp add: createInitialAnalyticsState_def initFields_def initTabs_def
          createInitialFieldAnalytics_def createInitialTabAnalytics_def finalizeAll_def
          closeTab_def totalErrorCount_def at_def)
  from errorCount_invariant
    [of "''s-1''" 0 "[''email'']" "Some [''personal'']" ?s "at 60000"
        "VALIDATION_ERROR ''email'' ''Invalid email address''" ?s'
        "[(at 60000, VALIDATION_ERROR ''email'' ''Required''),
          (at 70000, VALIDATION_ERROR ''email'' ''Required''),
          (at 80000, FORM_SUBMIT)]" ?r "at 90000" ?p]
    d c st run stale
  show ?thesis by simp
qed

subsection \<open>Active tabs\<close>

lemma lastVisitTime_closeTab [simp]: "lastVisitTime (closeTab now t) = None"
  by (simp add: closeTab_def split: option.splits)

lemma active_finalizeAll [simp]: "activeKeys (finalizeAll now ts) = []"
  by (induction ts) (auto simp: finalizeAll_def)

lemma others_closed:
  "(k, t) \<in> set (finalizeOthers now target ts) \<Longrightarrow> k \<noteq> target \<Longrightarrow> lastVisitTime t = None"
  by (induction ts) (auto simp: finalizeOthers_def split: if_splits)

lemma activeKeys_none:
  "\<forall>p\<in>set ts. lastVisitTime (snd p) = None \<Longrightarrow> activeKeys ts = []"
  by (induction ts) auto

lemma active_update_single:
  assumes "distinct (map fst al)"
    and "\<forall>p\<in>set al. fst p \<noteq> target \<longrightarrow> lastVisitTime (snd p) = None"
    and "lastVisitTime v \<noteq> None"
  shows "activeKeys (AList.update target v al) = [target]"
  using assms
proof (induction al)
  case Nil
  then show ?case by simp
next
  case (Cons p ps)
  obtain k t where kt: "p = (k, t)" by (cases p)
  show ?case
  proof (cases "k = target")
    case True
    have "\<forall>q\<in>set ps. fst q \<noteq> target"
      using Cons.prems(1) kt True by auto
    with Cons.prems(2) have "\<forall>q\<in>set ps. lastVisitTime (snd q) = None" by simp
    then have "activeKeys ps = []" by (rule activeKeys_none)
    with True kt Cons.prems(3) show ?thesis by simp
  next
    case False
    from False kt Cons.prems(2) have "lastVisitTime t = None" by simp
    moreover have "activeKeys (AList.update target v ps) = [target]"
      using Cons.IH Cons.prems by simp
    ultimately show ?thesis using False kt by simp
  qed
qed

lemma tab_change_active:
  assumes "distinct (map fst (tabs s))"
    and "analyticsReducer e s (TAB_CHANGE tab) = Inr s'"
  shows "activeTabs s' = [tab] \<and> distinct (map fst (tabs s'))"
proof -
  let ?closed = "finalizeOthers (date_now e) tab (tabs s)"
  let ?ensured = "if map_of ?closed tab = None
                  then AList.update tab createInitialTabAnalytics ?closed else ?closed"
  from assms(2) obtain cur where
    s': "s' = s\<lparr>tabs := AList.update tab
                  (cur\<lparr>visits := visits cur + 1, lastVisitTime := Some (date_now e),
                       lastVisitedAt := Some (date_now e)\<rparr>) ?ensured\<rparr>"
    by (auto simp: Let_def split: option.splits if_splits)
  have d: "distinct (map fst ?ensured)"
    using assms(1) by (simp add: AList.distinct_update)
  have "\<forall>p\<in>set ?closed. fst p \<noteq> tab \<longrightarrow> lastVisitTime (snd p) = None"
    using others_closed by auto
  then have c: "\<forall>p\<in>set ?ensured. fst p \<noteq> tab \<longrightarrow> lastVisitTime (snd p) = None"
    using set_update_subset[of tab createInitialTabAnalytics ?closed]
    by (auto split: if_splits)
  show ?thesis
    unfolding s' activeTabs_def
    using active_update_single[OF d c] d by (simp add: AList.distinct_update)
qed

lemma activeTabs_init: "activeTabs (createInitialAnalyticsState u t0 ffs tids) = []"
proof -
  have "\<forall>p\<in>set (initTabs tids). lastVisitTime (snd p) = None"
    using foldl_update_entries[of _ _ "\<lambda>_. createInitialTabAnalytics" "[]"]
    by (fastforce simp: initTabs_def createInitialTabAnalytics_def split: option.splits)
  then show ?thesis
    by (simp add: activeTabs_def createInitialAnalyticsState_def activeKeys_none)
qed

lemma distinct_initTabs: "distinct (map fst (initTabs tids))"
  by (auto simp: initTabs_def foldl_update_distinct split: option.splits)

lemma step_tabs:
  assumes "distinct (map fst (tabs s)) \<and> length (activeTabs s) \<le> 1"
    and "analyticsReducer e s a = Inr s'"
  shows "distinct (map fst (tabs s')) \<and> length (activeTabs s') \<le> 1"
proof (cases a)
  case (TAB_CHANGE tab)
  with assms tab_change_active[of s e tab s'] show ?thesis by simp
next
  case (VALIDATION_ERROR f m)
  with assms show ?thesis by (auto simp: Let_def activeTabs_def split: option.splits)
next
  case RESET_ANALYTICS
  with assms show ?thesis using activeTabs_init
    by (auto simp: distinct_initTabs createInitialAnalyticsState_def)
qed (use assms in \<open>auto simp: Let_def activeTabs_def\<close>)

lemma reachable_tabs:
  assumes "dispatchAll (createInitialAnalyticsState u t0 ffs tids) evs = Inr s"
  shows "distinct (map fst (tabs s)) \<and> length (activeTabs s) \<le> 1"
proof (rule dispatchAll_invariant
    [where P = "\<lambda>x. distinct (map fst (tabs x)) \<and> length (activeTabs x) \<le> 1", OF _ _ assms])
  show "distinct (map fst (tabs (createInitialAnalyticsState u t0 ffs tids)))
      \<and> length (activeTabs (createInitialAnalyticsState u t0 ffs tids)) \<le> 1"
    by (simp add: activeTabs_init) (simp add: createInitialAnalyticsState_def distinct_initTabs)
next
  fix e s a s'
  assume "distinct (map fst (tabs s)) \<and> length (activeTabs s) \<le> 1"
    and "analyticsReducer e s a = Inr s'"
  then show "distinct (map fst (tabs s')) \<and> length (activeTabs s') \<le> 1"
    by (rule step_tabs)
qed

lemma tab_change_returns: "\<exists>s'. analyticsReducer e s (TAB_CHANGE tab) = Inr s'"
  by (auto simp: Let_def AList.update_conv' split: option.splits)

text \<open>
  C7, as stated, at the start of a session with configured sections: the provider creates the
  state for the sections personal and payment, in which no tab has a \<open>lastVisitTime\<close>, and its
  mount effect dispatches nothing.
\<close>

theorem no_active_tab_at_start_counterexample:
  "activeTabs (analytics (initialController ''s-1'' 0 [''name''] (Some [''personal'', ''payment''])))
     = []
   \<and> mountActions (Some [''personal'', ''payment'']) = []"
  by (simp add: initialController_def normalizedTabs_def mountActions_def
        createInitialAnalyticsState_def initTabs_def createInitialTabAnalytics_def activeTabs_def)

text \<open>
  C7, amended. The freshly created state has no active tab. In every state reached from it
  at most one tab has a non-null \<open>lastVisitTime\<close>; there \<open>TAB_CHANGE\<close> returns a state in which
  exactly the target is active, \<open>VALIDATION_ERROR\<close> and \<open>SET_EXPORT_REASON\<close> keep the active
  tabs, and \<open>FINALIZE_TAB_TIMES\<close>, \<open>FORM_SUBMIT\<close>, \<open>FORM_ABANDON\<close> and \<open>RESET_ANALYTICS\<close>
  leave none.
\<close>

theorem at_most_one_active_tab:
  assumes "dispatchAll (createInitialAnalyticsState u t0 ffs tids) evs = Inr s"
  shows "activeTabs (createInitialAnalyticsState u t0 ffs tids) = []
       \<and> length (activeTabs s) \<le> 1
       \<and> (\<exists>s'. analyticsReducer e s (TAB_CHANGE tab) = Inr s' \<and> activeTabs s' = [tab])
       \<and> (\<forall>s'. analyticsReducer e s (VALIDATION_ERROR field msg) = Inr s'
              \<longrightarrow> activeTabs s' = activeTabs s)
       \<and> (\<forall>s'. analyticsReducer e s (SET_EXPORT_REASON reason) = Inr s'
              \<longrightarrow> activeTabs s' = activeTabs s)
       \<and> (\<forall>a s'. a \<in> {FINALIZE_TAB_TIMES, FORM_SUBMIT, FORM_ABANDON, RESET_ANALYTICS}
              \<longrightarrow> analyticsReducer e s a = Inr s' \<longrightarrow> activeTabs s' = [])"
proof (intro conjI)
  note r = reachable_tabs[OF assms]
  show "activeTabs (createInitialAnalyticsState u t0 ffs tids) = []" by (rule activeTabs_init)
  show "length (activeTabs s) \<le> 1" using r by simp
  show "\<exists>s'. analyticsReducer e s (TAB_CHANGE tab) = Inr s' \<and> activeTabs s' = [tab]"
    using tab_change_returns[of e s tab] tab_change_active[of s e tab] r by blast
  show "\<forall>s'. analyticsReducer e s (VALIDATION_ERROR field msg) = Inr s'
              \<longrightarrow> activeTabs s' = activeTabs s"
    by (auto simp: Let_def activeTabs_def split: option.splits)
  show "\<forall>s'. analyticsReducer e s (SET_EXPORT_REASON reason) = Inr s'
              \<longrightarrow> activeTabs s' = activeTabs s"
    by (auto simp: activeTabs_def)
  show "\<forall>a s'. a \<in> {FINALIZE_TAB_TIMES, FORM_SUBMIT, FORM_ABANDON, RESET_ANALYTICS}
              \<longrightarrow> analyticsReducer e s a = Inr s' \<longrightarrow> activeTabs s' = []"
    using activeTabs_init by (auto simp: Let_def activeTabs_def)
qed

theorem at_most_one_active_tab_witness:
  "dispatchAll (createInitialAnalyticsState ''s-1'' 0 [''name''] (Some [''personal'', ''payment'']))
     [(at 0, TAB_CHANGE ''personal'')]
   = Inr \<lparr>sessionId = ''s-1'', formStartTime = 0, formEndTime = None, formCompletionTime = None,
          fields_map = [(''name'', \<lparr>id_field = ''name'', validationErrors = []\<rparr>)],
          tabs = [(''personal'', \<lparr>visits = 1, totalTimeSpent = 0, lastVisitTime = Some 0,
                                  lastVisitedAt = Some 0\<rparr>),
                  (''payment'', \<lparr>visits = 0, totalTimeSpent = 0, lastVisitTime = None,
                                 lastVisitedAt = None\<rparr>)],
          formSubmitted = False, formAbandoned = False,
          validationErrorCount = 0, exportReason = None\<rparr>
   \<and> (\<exists>s'. analyticsReducer (at 5000)
         \<lparr>sessionId = ''s-1'', formStartTime = 0, formEndTime = None, formCompletionTime = None,
          fields_map = [(''name'', \<lparr>id_field = ''name'', validationErrors = []\<rparr>)],
          tabs = [(''personal'', \<lparr>visits = 1, totalTimeSpent = 0, lastVisitTime = Some 0,
                                  lastVisitedAt = Some 0\<rparr>),
                  (''payment'', \<lparr>visits = 0, totalTimeSpent = 0, lastVisitTime = None,
                                 lastVisitedAt = None\<rparr>)],
          formSubmitted = False, formAbandoned = False,
          validationErrorCount = 0, exportReason = None\<rparr>
         (TAB_CHANGE ''payment'') = Inr s' \<and> activeTabs s' = [''payment''])"
proof -
  have run: "dispatchAll
      (createInitialAnalyticsState ''s-1'' 0 [''name''] (Some [''personal'', ''payment'']))
      [(at 0, TAB_CHANGE ''personal'')]
    = Inr \<lparr>sessionId = ''s-1'', formStartTime = 0, formEndTime = None, formCompletionTime = None,
          fields_map = [(''name'', \<lparr>id_field = ''name'', validationErrors = []\<rparr>)],
          tabs = [(''personal'', \<lparr>visits = 1, totalTimeSpent = 0, lastVisitTime = Some 0,
                                  lastVisitedAt = Some 0\<rparr>),
                  (''payment'', \<lparr>visits = 0, totalTimeSpent = 0, lastVisitTime = None,
                                 lastVisitedAt = None\<rparr>)],
          formSubmitted = False, formAbandoned = False,
          validationErrorCount = 0, exportReason = None\<rparr>"
    by (simp add: createInitialAnalyticsState_def initFields_def initTabs_def
          createInitialFieldAnalytics_def createInitialTabAnalytics_def finalizeOthers_def
          closeTab_def at_def)
  from at_most_one_active_tab[OF run, of "at 5000" "''payment''"] run
  show ?thesis by blast
qed

subsection \<open>Reset\<close>

text \<open>
  C9. \<open>RESET_ANALYTICS\<close> returns a state that agrees with a state freshly created at the
  same time from any enumeration of the former field identifiers and tab identifiers: the
  same field and tab maps (every field with no errors, every tab with zero counters and not
  active), zero error count, no terminal marker, no end time, no export reason. Its
  \<open>sessionId\<close> is the one the generator returns for the reset.
\<close>

theorem reset_is_fresh:
  assumes "set ffs = fst ` set (fields_map s)" and "set tids = fst ` set (tabs s)"
  shows "\<exists>r. analyticsReducer e s RESET_ANALYTICS = Inr r
      \<and> sessionId r = uuid_v4 e
      \<and> map_of (fields_map r) =
          map_of (fields_map (createInitialAnalyticsState u (date_now_init e) ffs (Some tids)))
      \<and> map_of (tabs r) =
          map_of (tabs (createInitialAnalyticsState u (date_now_init e) ffs (Some tids)))
      \<and> r\<lparr>sessionId := u, fields_map := [], tabs := []\<rparr> =
          (createInitialAnalyticsState u (date_now_init e) ffs (Some tids))
            \<lparr>fields_map := [], tabs := []\<rparr>
      \<and> fst ` set (fields_map r) = fst ` set (fields_map s)
      \<and> fst ` set (tabs r) = fst ` set (tabs s)
      \<and> (\<forall>k \<in> fst ` set (fields_map s).
            map_of (fields_map r) k = Some \<lparr>id_field = k, validationErrors = []\<rparr>)
      \<and> (\<forall>k \<in> fst ` set (tabs s).
            map_of (tabs r) k =
              Some \<lparr>visits = 0, totalTimeSpent = 0, lastVisitTime = None, lastVisitedAt = None\<rparr>)
      \<and> validationErrorCount r = 0 \<and> \<not> formSubmitted r \<and> \<not> formAbandoned r
      \<and> formEndTime r = None \<and> formCompletionTime r = None \<and> exportReason r = None"
proof -
  let ?r = "createInitialAnalyticsState (uuid_v4 e) (date_now_init e)
              (map fst (fields_map s)) (Some (map fst (tabs s)))"
  let ?fresh = "createInitialAnalyticsState u (date_now_init e) ffs (Some tids)"
  have r: "analyticsReducer e s RESET_ANALYTICS = Inr ?r" by simp
  have f: "map_of (fields_map ?r) = map_of (fields_map ?fresh)"
    using assms(1)
    by (auto simp: createInitialAnalyticsState_def initFields_def foldl_update_lookup)
  have t: "map_of (tabs ?r) = map_of (tabs ?fresh)"
    using assms(2)
    by (auto simp: createInitialAnalyticsState_def initTabs_def foldl_update_lookup)
  have kf: "fst ` set (fields_map ?r) = fst ` set (fields_map s)"
    by (simp add: createInitialAnalyticsState_def initFields_def foldl_update_keys)
  have kt: "fst ` set (tabs ?r) = fst ` set (tabs s)"
    by (simp add: createInitialAnalyticsState_def initTabs_def foldl_update_keys)
  have vf: "\<forall>k \<in> fst ` set (fields_map s).
      map_of (fields_map ?r) k = Some \<lparr>id_field = k, validationErrors = []\<rparr>"
    by (auto simp: createInitialAnalyticsState_def initFields_def foldl_update_lookup
          createInitialFieldAnalytics_def)
  have vt: "\<forall>k \<in> fst ` set (tabs s).
      map_of (tabs ?r) k =
        Some \<lparr>visits = 0, totalTimeSpent = 0, lastVisitTime = None, lastVisitedAt = None\<rparr>"
    by (auto simp: createInitialAnalyticsState_def initTabs_def foldl_update_lookup
          createInitialTabAnalytics_def)
  have rest: "?r\<lparr>sessionId := u, fields_map := [], tabs := []\<rparr> = ?fresh\<lparr>fields_map := [], tabs := []\<rparr>"
    "sessionId ?r = uuid_v4 e" "validationErrorCount ?r = 0" "\<not> formSubmitted ?r"
    "\<not> formAbandoned ?r" "formEndTime ?r = None" "formCompletionTime ?r = None"
    "exportReason ?r = None"
    by (simp_all add: createInitialAnalyticsState_def)
  from r f t kf kt vf vt rest show ?thesis by blast
qed

theorem reset_is_fresh_witness:
  "set [''email'', ''name''] =
     fst ` set [(''name'', \<lparr>id_field = ''name'', validationErrors = []\<rparr>),
                (''email'', \<lparr>id_field = ''email'', validationErrors = [''Required'']\<rparr>)]
   \<and> set [''personal''] =
     fst ` set [(''personal'', \<lparr>visits = 2, totalTimeSpent = 900, lastVisitTime = Some 100,
                                 lastVisitedAt = Some 100\<rparr>)]
   \<and> (\<exists>r. analyticsReducer \<lparr>date_now = 5000, uuid_v4 = ''s-2'', date_now_init = 5001\<rparr>
         \<lparr>sessionId = ''s-1'', formStartTime = 0, formEndTime = Some 1000,
          formCompletionTime = Some 1000,
          fields_map = [(''name'', \<lparr>id_field = ''name'', validationErrors = []\<rparr>),
                        (''email'', \<lparr>id_field = ''email'', validationErrors = [''Required'']\<rparr>)],
          tabs = [(''personal'', \<lparr>visits = 2, totalTimeSpent = 900, lastVisitTime = Some 100,
                                  lastVisitedAt = Some 100\<rparr>)],
          formSubmitted = True, formAbandoned = False,
          validationErrorCount = 1, exportReason = Some Submit\<rparr>
         RESET_ANALYTICS = Inr r
       \<and> sessionId r = ''s-2''
       \<and> map_of (fields_map r) =
           map_of (fields_map
             (createInitialAnalyticsState ''s-9'' 5001 [''email'', ''name''] (Some [''personal''])))
       \<and> validationErrorCount r = 0 \<and> \<not> formSubmitted r \<and> exportReason r = None)"
proof -
  let ?s = "\<lparr>sessionId = ''s-1'', formStartTime = 0, formEndTime = Some 1000,
          formCompletionTime = Some 1000,
          fields_map = [(''name'', \<lparr>id_field = ''name'', validationErrors = []\<rparr>),
                        (''email'', \<lparr>id_field = ''email'', validationErrors = [''Required'']\<rparr>)],
          tabs = [(''personal'', \<lparr>visits = 2, totalTimeSpent = 900, lastVisitTime = Some 100,
                                  lastVisitedAt = Some 100\<rparr>)],
          formSubmitted = True, formAbandoned = False,
          validationErrorCount = 1, exportReason = Some Submit\<rparr>"
  let ?e = "\<lparr>date_now = 5000, uuid_v4 = ''s-2'', date_now_init = 5001\<rparr>"
  have h1: "set [''email'', ''name''] = fst ` set (fields_map ?s)"
    by (simp add: insert_commute)
  have h2: "set [''personal''] = fst ` set (tabs ?s)"
    by simp
  have e: "uuid_v4 ?e = ''s-2''" "date_now_init ?e = 5001" by simp_all
  from reset_is_fresh[OF h1 h2, of ?e "''s-9''"]
  have "\<exists>r. analyticsReducer ?e ?s RESET_ANALYTICS = Inr r
       \<and> sessionId r = ''s-2''
       \<and> map_of (fields_map r) =
           map_of (fields_map
             (createInitialAnalyticsState ''s-9'' 5001 [''email'', ''name''] (Some [''personal''])))
       \<and> validationErrorCount r = 0 \<and> \<not> formSubmitted r \<and> exportReason r = None"
    unfolding e by (elim exE conjE) (intro exI conjI, assumption+)
  moreover from h1 have "set [''email'', ''name''] =
     fst ` set [(''name'', \<lparr>id_field = ''name'', validationErrors = []\<rparr>),
                (''email'', \<lparr>id_field = ''email'', validationErrors = [''Required'']\<rparr>)]"
    by (simp only: FormAnalytics.simps)
  moreover from h2 have "set [''personal''] =
     fst ` set [(''personal'', \<lparr>visits = 2, totalTimeSpent = 900, lastVisitTime = Some 100,
                                 lastVisitedAt = Some 100\<rparr>)]"
    by (simp only: FormAnalytics.simps)
  ultimately show ?thesis by (intro conjI)
qed

subsection \<open>Events after a terminal marker\<close>

text \<open>
  C10. The reducer does not look at the terminal markers: no event is suppressed once
  \<open>formSubmitted\<close> or \<open>formAbandoned\<close> is true. In such a state a \<open>VALIDATION_ERROR\<close> for a
  known field with a message not yet recorded appends the message and raises
  \<open>validationErrorCount\<close> by 1; a \<open>TAB_CHANGE\<close> returns a state in which the target has one
  more visit (one visit when it was unknown) and is active since the event time;
  \<open>FINALIZE_TAB_TIMES\<close>, \<open>FORM_SUBMIT\<close> and \<open>FORM_ABANDON\<close> close every tab, and the last two
  write their markers and the end time; \<open>SET_EXPORT_REASON\<close> writes the reason;
  \<open>RESET_ANALYTICS\<close> returns a fresh state. For every action, what the reducer returns on the
  state is, up to the two markers, what it returns on the same state with both markers
  cleared.
\<close>

theorem terminal_not_absorbing:
  assumes "formSubmitted s \<or> formAbandoned s"
  shows "(map_of (fields_map s) field = Some fa \<and> msg \<notin> set (validationErrors fa) \<longrightarrow>
          (\<exists>s'. analyticsReducer e s (VALIDATION_ERROR field msg) = Inr s'
             \<and> map_of (fields_map s') field =
                 Some (fa\<lparr>validationErrors := validationErrors fa @ [msg]\<rparr>)
             \<and> validationErrorCount s' = validationErrorCount s + 1))
       \<and> (\<exists>s' t'. analyticsReducer e s (TAB_CHANGE tab) = Inr s'
            \<and> map_of (tabs s') tab = Some t'
            \<and> visits t' =
                (case map_of (tabs s) tab of None \<Rightarrow> 0 | Some t \<Rightarrow> visits t) + 1
            \<and> lastVisitTime t' = Some (date_now e))
       \<and> (\<exists>s'. analyticsReducer e s FINALIZE_TAB_TIMES = Inr s'
            \<and> (\<forall>k. map_of (tabs s') k = map_option (closeTab (date_now e)) (map_of (tabs s) k))
            \<and> activeTabs s' = [])
       \<and> (\<exists>s'. analyticsReducer e s FORM_SUBMIT = Inr s'
            \<and> formSubmitted s' \<and> \<not> formAbandoned s'
            \<and> formEndTime s' = Some (date_now e)
            \<and> formCompletionTime s' = Some (date_now e - formStartTime s)
            \<and> exportReason s' = Some Submit
            \<and> validationErrorCount s' = totalErrorCount (fields_map s)
            \<and> (\<forall>k. map_of (tabs s') k = map_option (closeTab (date_now e)) (map_of (tabs s) k)))
       \<and> (\<exists>s'. analyticsReducer e s FORM_ABANDON = Inr s'
            \<and> formAbandoned s' \<and> formSubmitted s' = formSubmitted s
            \<and> formEndTime s' = Some (date_now e)
            \<and> (\<forall>k. map_of (tabs s') k = map_option (closeTab (date_now e)) (map_of (tabs s) k)))
       \<and> (\<exists>s'. analyticsReducer e s (SET_EXPORT_REASON reason) = Inr s'
            \<and> exportReason s' = reason)
       \<and> (\<exists>s'. analyticsReducer e s RESET_ANALYTICS = Inr s'
            \<and> sessionId s' = uuid_v4 e \<and> formStartTime s' = date_now_init e
            \<and> \<not> formSubmitted s' \<and> \<not> formAbandoned s'
            \<and> formEndTime s' = None \<and> validationErrorCount s' = 0)
       \<and> map_sum id (\<lambda>x. x\<lparr>formSubmitted := False, formAbandoned := False\<rparr>)
            (analyticsReducer e s a)
          = map_sum id (\<lambda>x. x\<lparr>formSubmitted := False, formAbandoned := False\<rparr>)
              (analyticsReducer e (s\<lparr>formSubmitted := False, formAbandoned := False\<rparr>) a)"
proof (intro conjI)
  show "map_of (fields_map s) field = Some fa \<and> msg \<notin> set (validationErrors fa) \<longrightarrow>
          (\<exists>s'. analyticsReducer e s (VALIDATION_ERROR field msg) = Inr s'
             \<and> map_of (fields_map s') field =
                 Some (fa\<lparr>validationErrors := validationErrors fa @ [msg]\<rparr>)
             \<and> validationErrorCount s' = validationErrorCount s + 1)"
    by (simp add: AList.update_conv' Let_def)
  show "\<exists>s' t'. analyticsReducer e s (TAB_CHANGE tab) = Inr s'
            \<and> map_of (tabs s') tab = Some t'
            \<and> visits t' =
                (case map_of (tabs s) tab of None \<Rightarrow> 0 | Some t \<Rightarrow> visits t) + 1
            \<and> lastVisitTime t' = Some (date_now e)"
    by (auto simp: map_of_finalizeOthers AList.update_conv' Let_def createInitialTabAnalytics_def
          split: option.splits)
  show "\<exists>s'. analyticsReducer e s FINALIZE_TAB_TIMES = Inr s'
            \<and> (\<forall>k. map_of (tabs s') k = map_option (closeTab (date_now e)) (map_of (tabs s) k))
            \<and> activeTabs s' = []"
    by (simp add: map_of_finalizeAll activeTabs_def)
  show "\<exists>s'. analyticsReducer e s FORM_SUBMIT = Inr s'
            \<and> formSubmitted s' \<and> \<not> formAbandoned s'
            \<and> formEndTime s' = Some (date_now e)
            \<and> formCompletionTime s' = Some (date_now e - formStartTime s)
            \<and> exportReason s' = Some Submit
            \<and> validationErrorCount s' = totalErrorCount (fields_map s)
            \<and> (\<forall>k. map_of (tabs s') k = map_option (closeTab (date_now e)) (map_of (tabs s) k))"
    by (simp add: map_of_finalizeAll Let_def)
  show "\<exists>s'. analyticsReducer e s FORM_ABANDON = Inr s'
            \<and> formAbandoned s' \<and> formSubmitted s' = formSubmitted s
            \<and> formEndTime s' = Some (date_now e)
            \<and> (\<forall>k. map_of (tabs s') k = map_option (closeTab (date_now e)) (map_of (tabs s) k))"
    by (simp add: map_of_finalizeAll Let_def)
  show "\<exists>s'. analyticsReducer e s (SET_EXPORT_REASON reason) = Inr s' \<and> exportReason s' = reason"
    by simp
  show "\<exists>s'. analyticsReducer e s RESET_ANALYTICS = Inr s'
            \<and> sessionId s' = uuid_v4 e \<and> formStartTime s' = date_now_init e
            \<and> \<not> formSubmitted s' \<and> \<not> formAbandoned s'
            \<and> formEndTime s' = None \<and> validationErrorCount s' = 0"
    by (simp add: createInitialAnalyticsState_def)
  show "map_sum id (\<lambda>x. x\<lparr>formSubmitted := False, formAbandoned := False\<rparr>)
            (analyticsReducer e s a)
          = map_sum id (\<lambda>x. x\<lparr>formSubmitted := False, formAbandoned := False\<rparr>)
              (analyticsReducer e (s\<lparr>formSubmitted := False, formAbandoned := False\<rparr>) a)"
    by (cases a) (simp_all add: Let_def split: option.splits)
qed

theorem terminal_not_absorbing_witness:
  "formSubmitted \<lparr>sessionId = ''s-1'', formStartTime = 0, formEndTime = Some 10,
       formCompletionTime = Some 10,
       fields_map = [(''email'', \<lparr>id_field = ''email'', validationErrors = []\<rparr>)],
       tabs = [(''personal'', \<lparr>visits = 1, totalTimeSpent = 10, lastVisitTime = None,
                               lastVisitedAt = Some 0\<rparr>)],
       formSubmitted = True, formAbandoned = False,
       validationErrorCount = 0, exportReason = Some Submit\<rparr>
   \<and> analyticsReducer (at 70000)
         \<lparr>sessionId = ''s-1'', formStartTime = 0, formEndTime = Some 10,
          formCompletionTime = Some 10,
          fields_map = [(''email'', \<lparr>id_field = ''email'', validationErrors = []\<rparr>)],
          tabs = [(''personal'', \<lparr>visits = 1, totalTimeSpent = 10, lastVisitTime = None,
                                  lastVisitedAt = Some 0\<rparr>)],
          formSubmitted = True, formAbandoned = False,
          validationErrorCount = 0, exportReason = Some Submit\<rparr>
         (VALIDATION_ERROR ''email'' ''Invalid email address'')
     = Inr \<lparr>sessionId = ''s-1'', formStartTime = 0, formEndTime = Some 10,
          formCompletionTime = Some 10,
          fields_map = [(''email'', \<lparr>id_field = ''email'',
                                     validationErrors = [''Invalid email address'']\<rparr>)],
          tabs = [(''personal'', \<lparr>visits = 1, totalTimeSpent = 10, lastVisitTime = None,
                                  lastVisitedAt = Some 0\<rparr>)],
          formSubmitted = True, formAbandoned = False,
          validationErrorCount = 1, exportReason = Some Submit\<rparr>
   \<and> analyticsReducer (at 70000)
         \<lparr>sessionId = ''s-1'', formStartTime = 0, formEndTime = Some 10,
          formCompletionTime = Some 10,
          fields_map = [(''email'', \<lparr>id_field = ''email'', validationErrors = []\<rparr>)],
          tabs = [(''personal'', \<lparr>visits = 1, totalTimeSpent = 10, lastVisitTime = None,
                                  lastVisitedAt = Some 0\<rparr>)],
          formSubmitted = True, formAbandoned = False,
          validationErrorCount = 0, exportReason = Some Submit\<rparr>
         (TAB_CHANGE ''personal'')
     = Inr \<lparr>sessionId = ''s-1'', formStartTime = 0, formEndTime = Some 10,
          formCompletionTime = Some 10,
          fields_map = [(''email'', \<lparr>id_field = ''email'', validationErrors = []\<rparr>)],
          tabs = [(''personal'', \<lparr>visits = 2, totalTimeSpent = 10, lastVisitTime = Some 70000,
                                  lastVisitedAt = Some 70000\<rparr>)],
          formSubmitted = True, formAbandoned = False,
          validationErrorCount = 0, exportReason = Some Submit\<rparr>
   \<and> analyticsReducer (at 70000)
         \<lparr>sessionId = ''s-1'', formStartTime = 0, formEndTime = Some 10,
          formCompletionTime = Some 10,
          fields_map = [(''email'', \<lparr>id_field = ''email'', validationErrors = []\<rparr>)],
          tabs = [(''personal'', \<lparr>visits = 1, totalTimeSpent = 10, lastVisitTime = None,
                                  lastVisitedAt = Some 0\<rparr>)],
          formSubmitted = True, formAbandoned = False,
          validationErrorCount = 0, exportReason = Some Submit\<rparr>
         (SET_EXPORT_REASON (Some Idle))
     = Inr \<lparr>sessionId = ''s-1'', formStartTime = 0, formEndTime = Some 10,
          formCompletionTime = Some 10,
          fields_map = [(''email'', \<lparr>id_field = ''email'', validationErrors = []\<rparr>)],
          tabs = [(''personal'', \<lparr>visits = 1, totalTimeSpent = 10, lastVisitTime = None,
                                  lastVisitedAt = Some 0\<rparr>)],
          formSubmitted = True, formAbandoned = False,
          validationErrorCount = 0, exportReason = Some Idle\<rparr>"
  using terminal_not_absorbing
    [of "\<lparr>sessionId = ''s-1'', formStartTime = 0, formEndTime = Some 10,
          formCompletionTime = Some 10,
          fields_map = [(''email'', \<lparr>id_field = ''email'', validationErrors = []\<rparr>)],
          tabs = [(''personal'', \<lparr>visits = 1, totalTimeSpent = 10, lastVisitTime = None,
                                  lastVisitedAt = Some 0\<rparr>)],
          formSubmitted = True, formAbandoned = False,
          validationErrorCount = 0, exportReason = Some Submit\<rparr>"
        "''email''" "\<lparr>id_field = ''email'', validationErrors = []\<rparr>"
        "''Invalid email address''" "at 70000" "''personal''" "Some Idle"
        "SET_EXPORT_REASON (Some Idle)"]
  by (simp add: at_def finalizeOthers_def closeTab_def)

subsection \<open>Export and page unload\<close>

lemma sessionId_completeAnalytics [simp]:
  "sessionId (completeAnalytics now reason a) = sessionId a"
  "exportReason (completeAnalytics now reason a) = Some reason"
  by (simp_all add: completeAnalytics_def)

lemma delivered_analyticsEffect [simp]: "delivered (analyticsEffect c) = delivered c"
  by (simp add: analyticsEffect_def)

lemma flag_analyticsEffect:
  "formAlreadySubmitted (analyticsEffect c) \<Longrightarrow> formAlreadySubmitted c"
  by (simp add: analyticsEffect_def split: if_splits)

text \<open>
  C1, as stated, for one session: an idle export whose post resolves, followed by a submit
  whose post resolves, delivers two records with the same \<open>sessionId\<close>; an idle export
  followed by a page unload delivers two, and so does a submit followed by a page unload.
\<close>

theorem double_export_counterexample:
  "deliveredLog
     (trackFormSubmit
        (idleTimeout (initialController ''s-1'' 0 [''name''] (Some [''personal'']))
           600000 True (at 600050) (at 600050) (at 600050))
        700000 True (at 700050) (at 700050) (at 700050))
   = [(Post, ''s-1'', Some Idle), (Post, ''s-1'', Some Submit)]
   \<and> deliveredLog
     (handleUnload
        (idleTimeout (initialController ''s-1'' 0 [''name''] (Some [''personal'']))
           600000 True (at 600050) (at 600050) (at 600050)))
   = [(Post, ''s-1'', Some Idle), (Beacon, ''s-1'', Some TabClose)]
   \<and> deliveredLog
     (handleUnload
        (trackFormSubmit (initialController ''s-1'' 0 [''name''] (Some [''personal'']))
           20000 True (at 20050) (at 20050) (at 20050)))
   = [(Post, ''s-1'', Some Submit), (Beacon, ''s-1'', Some TabClose)]"
  by (simp add: deliveredLog_def handleUnload_def trackFormSubmit_def idleTimeout_def
        exportAnalytics_def analyticsEffect_def completeAnalytics_def
        exportDispatches_def initialController_def createInitialAnalyticsState_def Let_def)

text \<open>
  C1, amended. \<open>formAlreadySubmitted\<close> is no part of the session record and is read by
  \<open>handleUnload\<close> only: a page unload sends one beacon, with the current \<open>sessionId\<close> and the
  reason tabClose, when the flag is unset, and nothing when it is set; it changes neither the
  flag nor the session record. \<open>exportAnalytics\<close> does not read the flag: whatever the flag
  and whatever was delivered before, a call whose post resolves delivers exactly one more
  record, built from the state the call reads, and a call whose post is rejected delivers
  nothing and changes neither the flag nor the session record. An export with a reason other
  than submit does not set the flag.
\<close>

theorem exports_ignore_guard:
  "delivered (exportAnalytics seen c reason now True e1 e2 e3) =
     delivered c @ [(Post, completeAnalytics now reason seen)]
   \<and> deliveredLog (exportAnalytics seen c reason now True e1 e2 e3) =
       deliveredLog c @ [(Post, sessionId seen, Some reason)]
   \<and> delivered (exportAnalytics seen (c\<lparr>formAlreadySubmitted := b\<rparr>) reason now postOk e1 e2 e3) =
       delivered (exportAnalytics seen c reason now postOk e1 e2 e3)
   \<and> delivered (exportAnalytics seen c reason now False e1 e2 e3) = delivered c
   \<and> analytics (exportAnalytics seen c reason now False e1 e2 e3) = analytics c
   \<and> formAlreadySubmitted (exportAnalytics seen c reason now False e1 e2 e3) =
       formAlreadySubmitted c
   \<and> (reason \<noteq> Submit \<and> \<not> formAlreadySubmitted c \<longrightarrow>
        \<not> formAlreadySubmitted (exportAnalytics seen c reason now True e1 e2 e3))
   \<and> deliveredLog (handleUnload c) =
       deliveredLog c @
         (if formAlreadySubmitted c then []
          else [(Beacon, sessionId (analytics c), Some TabClose)])
   \<and> analytics (handleUnload c) = analytics c
   \<and> formAlreadySubmitted (handleUnload c) = formAlreadySubmitted c"
proof (intro conjI)
  show "delivered (exportAnalytics seen c reason now True e1 e2 e3) =
     delivered c @ [(Post, completeAnalytics now reason seen)]"
    by (simp add: exportAnalytics_def Let_def)
  then show "deliveredLog (exportAnalytics seen c reason now True e1 e2 e3) =
       deliveredLog c @ [(Post, sessionId seen, Some reason)]"
    by (simp add: deliveredLog_def)
  show "delivered (exportAnalytics seen (c\<lparr>formAlreadySubmitted := b\<rparr>) reason now postOk e1 e2 e3) =
       delivered (exportAnalytics seen c reason now postOk e1 e2 e3)"
    by (simp add: exportAnalytics_def Let_def)
  show "delivered (exportAnalytics seen c reason now False e1 e2 e3) = delivered c"
    by (simp add: exportAnalytics_def Let_def)
  show "analytics (exportAnalytics seen c reason now False e1 e2 e3) = analytics c"
    by (simp add: exportAnalytics_def Let_def)
  show "formAlreadySubmitted (exportAnalytics seen c reason now False e1 e2 e3) =
       formAlreadySubmitted c"
    by (simp add: exportAnalytics_def Let_def)
  show "reason \<noteq> Submit \<and> \<not> formAlreadySubmitted c \<longrightarrow>
        \<not> formAlreadySubmitted (exportAnalytics seen c reason now True e1 e2 e3)"
    by (auto simp: exportAnalytics_def Let_def dest: flag_analyticsEffect)
  show "deliveredLog (handleUnload c) =
       deliveredLog c @
         (if formAlreadySubmitted c then []
          else [(Beacon, sessionId (analytics c), Some TabClose)])"
    by (simp add: handleUnload_def deliveredLog_def)
  show "analytics (handleUnload c) = analytics c"
    by (simp add: handleUnload_def)
  show "formAlreadySubmitted (handleUnload c) = formAlreadySubmitted c"
    by (simp add: handleUnload_def)
qed

theorem exports_ignore_guard_witness:
  "Idle \<noteq> Submit
   \<and> \<not> formAlreadySubmitted (initialController ''s-1'' 0 [''name''] (Some [''personal'']))
   \<and> \<not> formAlreadySubmitted
         (idleTimeout (initialController ''s-1'' 0 [''name''] (Some [''personal'']))
            600000 True (at 600050) (at 600050) (at 600050))
   \<and> deliveredLog
         (idleTimeout (initialController ''s-1'' 0 [''name''] (Some [''personal'']))
            600000 True (at 600050) (at 600050) (at 600050))
       = [(Post, ''s-1'', Some Idle)]
   \<and> deliveredLog (handleUnload (initialController ''s-1'' 0 [''name''] (Some [''personal''])))
       = [(Beacon, ''s-1'', Some TabClose)]"
proof -
  let ?c0 = "initialController ''s-1'' 0 [''name''] (Some [''personal''])"
  have g0: "\<not> formAlreadySubmitted ?c0" by (simp add: initialController_def)
  have d0: "deliveredLog ?c0 = []" by (simp add: initialController_def deliveredLog_def)
  have s0: "sessionId (analytics ?c0) = ''s-1''" "sessionId (firstRender ?c0) = ''s-1''"
    by (simp_all add: initialController_def createInitialAnalyticsState_def)
  note t = exports_ignore_guard
    [of "firstRender ?c0" ?c0 Idle 600000 "at 600050" "at 600050" "at 600050"]
  from t g0 have g1: "\<not> formAlreadySubmitted (idleTimeout ?c0 600000 True
      (at 600050) (at 600050) (at 600050))"
    unfolding idleTimeout_def by simp
  from t d0 s0 have l1: "deliveredLog (idleTimeout ?c0 600000 True
      (at 600050) (at 600050) (at 600050)) = [(Post, ''s-1'', Some Idle)]"
    unfolding idleTimeout_def by simp
  from t g0 d0 s0 have l0: "deliveredLog (handleUnload ?c0) = [(Beacon, ''s-1'', Some TabClose)]"
    by simp
  from g0 g1 l1 l0 show ?thesis by simp
qed

end
